theory Spec2Isabelle
  imports Main "HOL-Library.AList"
begin

section \<open>Values and exceptions of the Python program\<close>

text \<open>
  \<^verbatim>\<open>bot.py\<close> relays a chat message to a completion endpoint and folds the streamed
  answer into one string. The values it handles are what \<^verbatim>\<open>json.loads\<close> returns:
  \<^verbatim>\<open>None\<close>, booleans, numbers, strings, lists and dictionaries. A number keeps its
  literal (the program only ever tests a number for zero); a dictionary is an association
  list with one entry per key, in insertion order. Strings are lists of 8-bit characters,
  read as code points below 256.
\<close>

datatype json =
    JNull
  | JBool bool
  | JNum string
  | JStr string
  | JArr "json list"
  | JObj "(string \<times> json) list"

text \<open>
  The exceptions that can reach the handlers of \<^verbatim>\<open>get_ai_response\<close>. The first three
  are subclasses of \<^verbatim>\<open>requests.exceptions.RequestException\<close>; all of them are subclasses
  of \<^verbatim>\<open>Exception\<close>.
\<close>

datatype exn =
    Timeout
  | ConnectionError
  | ChunkedEncodingError
  | TypeError
  | KeyError
  | IndexError
  | AttributeError
  | RuntimeError

fun is_RequestException :: "exn \<Rightarrow> bool" where
  "is_RequestException Timeout = True"
| "is_RequestException ConnectionError = True"
| "is_RequestException ChunkedEncodingError = True"
| "is_RequestException _ = False"

definition then_do :: "exn + 'a \<Rightarrow> ('a \<Rightarrow> exn + 'b) \<Rightarrow> exn + 'b" where
  "then_do r f = (case r of Inl e \<Rightarrow> Inl e | Inr v \<Rightarrow> f v)"

section \<open>Python string and object primitives\<close>

text \<open>\<^verbatim>\<open>str.isspace\<close> on one character, for the code points below 256.\<close>

definition isspace :: "char \<Rightarrow> bool" where
  "isspace c = (of_char c \<in> {9, 10, 11, 12, 13, 28, 29, 30, 31, 32, 133, 160 :: nat})"

text \<open>\<^verbatim>\<open>str.strip()\<close>: whitespace is removed at both ends.\<close>

definition strip :: "string \<Rightarrow> string" where
  "strip s = rev (dropWhile isspace (rev (dropWhile isspace s)))"

text \<open>
  Truth value of an object, as \<^verbatim>\<open>if content:\<close> tests it: \<^verbatim>\<open>None\<close>, \<^verbatim>\<open>False\<close>, zero
  and every empty container are false. A number is zero when its literal has no digit
  other than 0 before the exponent (a literal so small that the float underflows to zero
  is not distinguished).
\<close>

definition num_is_zero :: "string \<Rightarrow> bool" where
  "num_is_zero lit =
     (\<forall>c \<in> set (takeWhile (\<lambda>c. c \<notin> set ''eE'') lit). c \<notin> set ''123456789'')"

fun truthy :: "json \<Rightarrow> bool" where
  "truthy JNull = False"
| "truthy (JBool b) = b"
| "truthy (JNum lit) = (\<not> num_is_zero lit)"
| "truthy (JStr s) = (s \<noteq> [])"
| "truthy (JArr xs) = (xs \<noteq> [])"
| "truthy (JObj kvs) = (kvs \<noteq> [])"

text \<open>
  Subscription \<^verbatim>\<open>obj[key]\<close> with a string or an integer key. A dictionary read from
  JSON has string keys only, so an integer key is never found; a list or a string
  subscripted with a string raises \<^verbatim>\<open>TypeError\<close>, as does every object that is not
  subscriptable. Negative indices count from the end.
\<close>

datatype key = Name string | Index int

definition at_index :: "'a list \<Rightarrow> int \<Rightarrow> exn + 'a" where
  "at_index xs i =
     (if 0 \<le> i \<and> i < int (length xs) then Inr (xs ! nat i)
      else if i < 0 \<and> - int (length xs) \<le> i then Inr (xs ! nat (int (length xs) + i))
      else Inl IndexError)"

fun getitem :: "json \<Rightarrow> key \<Rightarrow> exn + json" where
  "getitem (JObj kvs) (Name k) =
     (case map_of kvs k of None \<Rightarrow> Inl KeyError | Some v \<Rightarrow> Inr v)"
| "getitem (JObj kvs) (Index i) = Inl KeyError"
| "getitem (JArr xs) (Index i) = at_index xs i"
| "getitem (JArr xs) (Name k) = Inl TypeError"
| "getitem (JStr s) (Index i) = then_do (at_index s i) (\<lambda>c. Inr (JStr [c]))"
| "getitem (JStr s) (Name k) = Inl TypeError"
| "getitem _ _ = Inl TypeError"

text \<open>
  The method call \<^verbatim>\<open>obj.get(name)\<close>: only a dictionary has the method, and a missing
  key gives \<^verbatim>\<open>None\<close>.
\<close>

fun get_method :: "json \<Rightarrow> string \<Rightarrow> exn + json" where
  "get_method (JObj kvs) k = Inr (case map_of kvs k of None \<Rightarrow> JNull | Some v \<Rightarrow> v)"
| "get_method _ k = Inl AttributeError"

section \<open>A reader for JSON texts\<close>

text \<open>
  \<^verbatim>\<open>json.loads\<close> belongs to Python's library. The model of \<^verbatim>\<open>sanitize_stream\<close> below takes
  the reader as a parameter \<open>loads\<close>, which gives \<open>None\<close> where \<^verbatim>\<open>json.loads\<close> raises, so
  what is proved of it holds for every reader. \<open>json_loads\<close> is a reader of the grammar
  of RFC 8259, used wherever a concrete stream is evaluated. The fuel of \<open>parse_value\<close>
  is the length of the text, which bounds the number of values in it. An escape
  \<^verbatim>\<open>\uXXXX\<close> above \<^verbatim>\<open>00FF\<close> has no 8-bit character and is not read.
\<close>

definition is_digit :: "char \<Rightarrow> bool" where
  "is_digit c = (c \<in> set ''0123456789'')"

definition skip_ws :: "string \<Rightarrow> string" where
  "skip_ws = dropWhile (\<lambda>c. c \<in> {CHR '' '', CHR 0x09, CHR 0x0A, CHR 0x0D})"

definition hex_val :: "char \<Rightarrow> nat option" where
  "hex_val c =
     (if c \<in> set ''0123456789'' then Some (of_char c - 48)
      else if c \<in> set ''abcdef'' then Some (of_char c - 87)
      else if c \<in> set ''ABCDEF'' then Some (of_char c - 55)
      else None)"

fun hex4 :: "string \<Rightarrow> char option" where
  "hex4 [a, b, c, d] =
     (case (hex_val a, hex_val b, hex_val c, hex_val d) of
        (Some h1, Some h2, Some h3, Some h4) \<Rightarrow>
          (if h1 = 0 \<and> h2 = 0 then Some (char_of (h3 * 16 + h4)) else None)
      | _ \<Rightarrow> None)"
| "hex4 _ = None"

definition unescape :: "char \<Rightarrow> char option" where
  "unescape e =
     (if e = CHR 0x22 \<or> e = CHR 0x5C \<or> e = CHR ''/'' then Some e
      else if e = CHR ''b'' then Some (CHR 0x08)
      else if e = CHR ''f'' then Some (CHR 0x0C)
      else if e = CHR ''n'' then Some (CHR 0x0A)
      else if e = CHR ''r'' then Some (CHR 0x0D)
      else if e = CHR ''t'' then Some (CHR 0x09)
      else None)"

fun scan_string :: "string \<Rightarrow> string \<Rightarrow> (string \<times> string) option" where
  "scan_string acc [] = None"
| "scan_string acc (c # cs) =
     (if c = CHR 0x22 then Some (rev acc, cs)
      else if c = CHR 0x5C then
        (case cs of
           [] \<Rightarrow> None
         | e # es \<Rightarrow>
             (if e = CHR ''u'' then
                (case hex4 (take 4 es) of
                   None \<Rightarrow> None
                 | Some ch \<Rightarrow> scan_string (ch # acc) (drop 4 es))
              else
                (case unescape e of
                   None \<Rightarrow> None
                 | Some ch \<Rightarrow> scan_string (ch # acc) es)))
      else if (of_char c :: nat) < 32 then None
      else scan_string (c # acc) cs)"

definition scan_int :: "string \<Rightarrow> (string \<times> string) option" where
  "scan_int s =
     (case s of
        [] \<Rightarrow> None
      | c # cs \<Rightarrow>
          if c = CHR ''0'' then Some (''0'', cs)
          else if is_digit c then Some (takeWhile is_digit s, dropWhile is_digit s)
          else None)"

definition scan_frac :: "string \<Rightarrow> string \<times> string" where
  "scan_frac s =
     (case s of
        [] \<Rightarrow> ('''', s)
      | c # cs \<Rightarrow>
          if c = CHR ''.'' \<and> takeWhile is_digit cs \<noteq> []
          then (c # takeWhile is_digit cs, dropWhile is_digit cs)
          else ('''', s))"

definition scan_exp :: "string \<Rightarrow> string \<times> string" where
  "scan_exp s =
     (case s of
        [] \<Rightarrow> ('''', s)
      | c # cs \<Rightarrow>
          if c \<in> set ''eE'' then
            (let (sg, r) = (case cs of
                              [] \<Rightarrow> ('''', cs)
                            | d # ds \<Rightarrow> if d \<in> set ''+-'' then ([d], ds) else ('''', cs))
             in if takeWhile is_digit r \<noteq> []
                then (c # sg @ takeWhile is_digit r, dropWhile is_digit r)
                else ('''', s))
          else ('''', s))"

definition scan_number :: "string \<Rightarrow> (string \<times> string) option" where
  "scan_number s =
     (let (sg, r) = (case s of
                       [] \<Rightarrow> ('''', s)
                     | c # cs \<Rightarrow> if c = CHR ''-'' then (''-'', cs) else ('''', s))
      in case scan_int r of
           None \<Rightarrow> None
         | Some (i, r1) \<Rightarrow>
             (let (f, r2) = scan_frac r1; (e, r3) = scan_exp r2
              in Some (sg @ i @ f @ e, r3)))"

definition scan_literal :: "string \<Rightarrow> json \<Rightarrow> string \<Rightarrow> (json \<times> string) option" where
  "scan_literal w v s =
     (if take (length w) s = w then Some (v, drop (length w) s) else None)"

fun parse_value :: "nat \<Rightarrow> string \<Rightarrow> (json \<times> string) option"
  and parse_elements :: "nat \<Rightarrow> json list \<Rightarrow> string \<Rightarrow> (json \<times> string) option"
  and parse_members :: "nat \<Rightarrow> (string \<times> json) list \<Rightarrow> string \<Rightarrow> (json \<times> string) option"
where
  "parse_value 0 s = None"
| "parse_value (Suc n) [] = None"
| "parse_value (Suc n) (c # cs) =
     (if c = CHR ''{'' then
        (case skip_ws cs of
           [] \<Rightarrow> None
         | d # ds \<Rightarrow> if d = CHR ''}'' then Some (JObj [], ds) else parse_members n [] (d # ds))
      else if c = CHR ''['' then
        (case skip_ws cs of
           [] \<Rightarrow> None
         | d # ds \<Rightarrow> if d = CHR '']'' then Some (JArr [], ds) else parse_elements n [] (d # ds))
      else if c = CHR 0x22 then
        (case scan_string [] cs of
           None \<Rightarrow> None
         | Some (str, rest) \<Rightarrow> Some (JStr str, rest))
      else if c = CHR ''t'' then scan_literal ''true'' (JBool True) (c # cs)
      else if c = CHR ''f'' then scan_literal ''false'' (JBool False) (c # cs)
      else if c = CHR ''n'' then scan_literal ''null'' JNull (c # cs)
      else
        (case scan_number (c # cs) of
           None \<Rightarrow> None
         | Some (lit, rest) \<Rightarrow> Some (JNum lit, rest)))"
| "parse_elements 0 acc s = None"
| "parse_elements (Suc n) acc s =
     (case parse_value n s of
        None \<Rightarrow> None
      | Some (v, rest) \<Rightarrow>
          (case skip_ws rest of
             [] \<Rightarrow> None
           | c # cs \<Rightarrow>
               if c = CHR '','' then parse_elements n (acc @ [v]) (skip_ws cs)
               else if c = CHR '']'' then Some (JArr (acc @ [v]), cs)
               else None))"
| "parse_members 0 acc s = None"
| "parse_members (Suc n) acc [] = None"
| "parse_members (Suc n) acc (q # qs) =
     (if q \<noteq> CHR 0x22 then None
      else
        (case scan_string [] qs of
           None \<Rightarrow> None
         | Some (k, r1) \<Rightarrow>
             (case skip_ws r1 of
                [] \<Rightarrow> None
              | d # ds \<Rightarrow>
                  if d \<noteq> CHR '':'' then None
                  else
                    (case parse_value n (skip_ws ds) of
                       None \<Rightarrow> None
                     | Some (v, r2) \<Rightarrow>
                         (case skip_ws r2 of
                            [] \<Rightarrow> None
                          | c # cs \<Rightarrow>
                              if c = CHR '','' then
                                parse_members n (AList.update k v acc) (skip_ws cs)
                              else if c = CHR ''}'' then
                                Some (JObj (AList.update k v acc), cs)
                              else None)))))"

definition json_loads :: "string \<Rightarrow> json option" where
  "json_loads s =
     (case parse_value (Suc (length s)) (skip_ws s) of
        None \<Rightarrow> None
      | Some (v, rest) \<Rightarrow> if skip_ws rest = [] then Some v else None)"

section \<open>The stream reducer\<close>

text \<open>
  An iterator is modelled by what a \<^verbatim>\<open>for\<close> loop over it observes: the items it yields
  and then either exhaustion (\<open>None\<close>) or the exception that \<^verbatim>\<open>next\<close> raises. The body
  of an HTTP response is finite, so the items are a list: the stream ends, or fails, after
  finitely many lines.
\<close>

type_synonym 'a iteration = "'a list \<times> exn option"

text \<open>
  \<^verbatim>\<open>extract_content\<close> (bot.py, lines 56 to 60). \<open>delta_content\<close> is the expression
  \<^verbatim>\<open>chunk["choices"][0]["delta"].get("content")\<close> inside the \<^verbatim>\<open>try\<close>; the handler turns
  every exception into \<^verbatim>\<open>None\<close>.
\<close>

definition delta_content :: "json \<Rightarrow> exn + json" where
  "delta_content chunk =
     then_do (getitem chunk (Name ''choices'')) (\<lambda>choices.
     then_do (getitem choices (Index 0)) (\<lambda>choice.
     then_do (getitem choice (Name ''delta'')) (\<lambda>delta.
     get_method delta ''content'')))"

definition extract_content :: "json \<Rightarrow> json" where
  "extract_content chunk = (case delta_content chunk of Inl e \<Rightarrow> JNull | Inr v \<Rightarrow> v)"

text \<open>
  Modelled from the spec: \<^verbatim>\<open>sanitize_stream\<close> is imported from the webscout library and
  is not part of the source file. Section 4.1 of the specification describes it: for each
  raw line, strip the intro marker if present; skip the line if it matches a sentinel;
  otherwise parse the remainder as JSON, skipping the line on a parse failure; apply the
  extraction function. When the connection drops mid-stream, what was produced so far
  stands and nothing is raised: the generator just ends. The call in bot.py fixes
  \<^verbatim>\<open>to_json=True\<close> and \<^verbatim>\<open>yield_raw_on_error=False\<close>. The generator hands every result of
  the extraction function to the loop, which tests it with \<^verbatim>\<open>if content:\<close>.
  \<open>get_ai_response\<close> below does not depend on this model: it takes the function as a
  parameter, and \<open>sanitize_stream loads\<close> is the instance for the claims about lines.
\<close>

definition strip_intro :: "string \<Rightarrow> string \<Rightarrow> string" where
  "strip_intro intro_value line =
     (if take (length intro_value) line = intro_value
      then drop (length intro_value) line else line)"

definition sanitize_line ::
  "(string \<Rightarrow> json option) \<Rightarrow> string \<Rightarrow> string list \<Rightarrow> string \<Rightarrow> json option" where
  "sanitize_line loads intro_value skip_markers line =
     (let payload = strip_intro intro_value line
      in if payload \<in> set skip_markers then None else loads payload)"

definition sanitize_stream ::
  "(string \<Rightarrow> json option) \<Rightarrow> string iteration \<Rightarrow> string \<Rightarrow> string list \<Rightarrow>
     (json \<Rightarrow> json) \<Rightarrow> json iteration" where
  "sanitize_stream loads data intro_value skip_markers content_extractor =
     (map content_extractor
        (List.map_filter (sanitize_line loads intro_value skip_markers) (fst data)),
      None)"

text \<open>
  The loop of lines 62 to 71. \<^verbatim>\<open>full_response += content\<close> raises \<^verbatim>\<open>TypeError\<close> when a
  true \<^verbatim>\<open>content\<close> is not a string. An exception that ends the iteration leaves the loop
  after the items before it have been handled.
\<close>

fun accumulate :: "string \<Rightarrow> json list \<Rightarrow> exn + string" where
  "accumulate full_response [] = Inr full_response"
| "accumulate full_response (content # rest) =
     (if truthy content then
        (case content of
           JStr s \<Rightarrow> accumulate (full_response @ s) rest
         | _ \<Rightarrow> Inl TypeError)
      else accumulate full_response rest)"

definition for_loop :: "string \<Rightarrow> json iteration \<Rightarrow> exn + string" where
  "for_loop full_response it =
     then_do (accumulate full_response (fst it)) (\<lambda>full.
       case snd it of None \<Rightarrow> Inr full | Some e \<Rightarrow> Inl e)"

section \<open>get_ai_response\<close>

text \<open>
  The upstream service is the function \<open>post\<close>: for a user message, \<^verbatim>\<open>requests.post\<close>
  either raises or returns a response with a status code, a body text and the iteration
  of its lines. The record field \<open>body_text\<close> is \<^verbatim>\<open>response.text\<close>, which only the log
  message of line 51 reads. The argument of \<open>post\<close> stands for the request of lines 31 to
  48, in which only the user message varies. What the function
  does besides returning is kept in \<open>events\<close>: the calls of \<^verbatim>\<open>logger.error\<close> and the
  call of \<^verbatim>\<open>response.iter_lines()\<close>.

  The imported \<^verbatim>\<open>sanitize_stream\<close> is the parameter \<open>sanitize\<close>: from the arguments of the
  call at lines 62 to 69 (the iteration of the response lines, \<^verbatim>\<open>intro_value\<close>,
  \<^verbatim>\<open>skip_markers\<close> and \<^verbatim>\<open>content_extractor\<close>) it gives the iteration that the loop
  observes, whose items are the values of \<^verbatim>\<open>content\<close>.
\<close>

type_synonym sanitizer =
  "string iteration \<Rightarrow> string \<Rightarrow> string list \<Rightarrow> (json \<Rightarrow> json) \<Rightarrow> json iteration"

record response =
  status_code :: int
  body_text :: string
  iter_lines :: "string iteration"

datatype event =
    ApiError int string
  | RequestError exn
  | UnexpectedError exn
  | IterLines

record outcome =
  reply :: string
  events :: "event list"

text \<open>The body of the \<^verbatim>\<open>try\<close> statement, lines 41 to 73.\<close>

definition try_body ::
  "sanitizer \<Rightarrow> (string \<Rightarrow> exn + response) \<Rightarrow> string \<Rightarrow>
     event list \<times> (exn + string)" where
  "try_body sanitize post user_message =
     (case post user_message of
        Inl e \<Rightarrow> ([], Inl e)
      | Inr response \<Rightarrow>
          if status_code response \<noteq> 200 then
            ([ApiError (status_code response) (body_text response)],
             Inr ''Sorry, I'm having trouble connecting to the AI service.'')
          else
            ([IterLines],
             then_do
               (for_loop ''''
                  (sanitize (iter_lines response) ''data:'' [''[DONE]'', '''']
                     extract_content))
               (\<lambda>full_response.
                  Inr (if full_response \<noteq> [] then strip full_response
                       else ''I couldn't generate a response.''))))"

text \<open>The handlers of lines 75 to 80, tried in the order of the source.\<close>

definition get_ai_response ::
  "sanitizer \<Rightarrow> (string \<Rightarrow> exn + response) \<Rightarrow> string \<Rightarrow> outcome" where
  "get_ai_response sanitize post user_message =
     (case try_body sanitize post user_message of
        (evs, Inr answer) \<Rightarrow> \<lparr>reply = answer, events = evs\<rparr>
      | (evs, Inl e) \<Rightarrow>
          if is_RequestException e then
            \<lparr>reply = ''Sorry, I'm having trouble connecting to the AI service.'',
             events = evs @ [RequestError e]\<rparr>
          else
            \<lparr>reply = ''Sorry, something went wrong while processing your request.'',
             events = evs @ [UnexpectedError e]\<rparr>)"

section \<open>main\<close>

text \<open>
  \<^verbatim>\<open>TELEGRAM_TOKEN\<close> is the result of \<^verbatim>\<open>os.getenv\<close>: \<open>None\<close> when the variable is not
  set, its value otherwise. \<open>main\<close> is modelled by the sequence of its actions.
\<close>

datatype action =
    Log_error string
  | Log_info string
  | Build_application string
  | Add_handler string
  | Add_error_handler
  | Run_polling

definition main :: "string option \<Rightarrow> action list" where
  "main TELEGRAM_TOKEN =
     (case TELEGRAM_TOKEN of
        None \<Rightarrow> [Log_error ''TELEGRAM_TOKEN environment variable is not set!'']
      | Some token \<Rightarrow>
          if token = [] then [Log_error ''TELEGRAM_TOKEN environment variable is not set!'']
          else
            [Log_info ''Starting AI Telegram Bot...'',
             Build_application token,
             Add_handler ''start'',
             Add_handler ''help'',
             Add_handler ''message'',
             Add_error_handler,
             Log_info ''Bot is running...'',
             Run_polling])"

section \<open>Upstream services and streams used as examples\<close>

text \<open>
  An upstream service that treats every user message the same way, and one that answers
  with status 200 and the given iteration of lines.
\<close>

definition always :: "'a \<Rightarrow> string \<Rightarrow> 'a" where
  "always r user_message = r"

definition ok_stream :: "string iteration \<Rightarrow> string \<Rightarrow> exn + response" where
  "ok_stream data = always (Inr \<lparr>status_code = 200, body_text = '''', iter_lines = data\<rparr>)"

text \<open>
  Lines of a stream: the two content chunks of the specification's example, a chunk whose
  delta is the empty string, one whose delta is a single space, and one whose content is
  a number.
\<close>

definition hel_line :: string where
  "hel_line = ''data: {\"choices\":[{\"delta\":{\"content\":\"Hel\"}}]}''"

definition lo_line :: string where
  "lo_line = ''data: {\"choices\":[{\"delta\":{\"content\":\"lo\"}}]}''"

definition empty_delta_line :: string where
  "empty_delta_line = ''data: {\"choices\":[{\"delta\":{\"content\":\"\"}}]}''"

definition blank_delta_line :: string where
  "blank_delta_line = ''data: {\"choices\":[{\"delta\":{\"content\":\" \"}}]}''"

definition number_delta_line :: string where
  "number_delta_line = ''data: {\"choices\":[{\"delta\":{\"content\":5}}]}''"

section \<open>Startup\<close>

text \<open>
  C8 (as amended). When \<^verbatim>\<open>TELEGRAM_TOKEN\<close> is not set, or is set to the empty string,
  \<open>main\<close> logs the error and returns: the application is neither built nor run. When it
  is set to a non-empty string, \<open>main\<close> builds the application with that token, registers
  the handlers and runs the polling loop.
\<close>

theorem main_token_guard:
  "(TELEGRAM_TOKEN = None \<or> TELEGRAM_TOKEN = Some '''' \<longrightarrow>
      main TELEGRAM_TOKEN = [Log_error ''TELEGRAM_TOKEN environment variable is not set!'']) \<and>
   (\<forall>token. TELEGRAM_TOKEN = Some token \<and> token \<noteq> '''' \<longrightarrow>
      main TELEGRAM_TOKEN =
        [Log_info ''Starting AI Telegram Bot...'', Build_application token,
         Add_handler ''start'', Add_handler ''help'', Add_handler ''message'',
         Add_error_handler, Log_info ''Bot is running...'', Run_polling])"
proof (cases TELEGRAM_TOKEN)
  case None
  then show ?thesis by (simp add: main_def)
next
  case (Some token)
  then show ?thesis by (cases "token = []") (simp_all add: main_def)
qed

theorem main_token_guard_witness:
  "main None = [Log_error ''TELEGRAM_TOKEN environment variable is not set!''] \<and>
   main (Some ''123:abc'') =
     [Log_info ''Starting AI Telegram Bot...'', Build_application ''123:abc'',
      Add_handler ''start'', Add_handler ''help'', Add_handler ''message'',
      Add_error_handler, Log_info ''Bot is running...'', Run_polling]"
  using main_token_guard [of None] main_token_guard [of "Some ''123:abc''"] by simp

text \<open>
  C8 as stated fails for a token that is present but empty: \<^verbatim>\<open>not TELEGRAM_TOKEN\<close> is
  true of the empty string, so startup does not proceed.
\<close>

theorem main_empty_token_counterexample:
  "main (Some '''') = [Log_error ''TELEGRAM_TOKEN environment variable is not set!''] \<and>
   Build_application '''' \<notin> set (main (Some '''')) \<and>
   Run_polling \<notin> set (main (Some ''''))"
  by (simp add: main_def)

section \<open>Statuses and exceptions of the request\<close>

text \<open>
  C5. A response whose status code is not 200 gives exactly the reply
  "Sorry, I'm having trouble connecting to the AI service."; the only other effect is
  the logged error, and \<^verbatim>\<open>response.iter_lines()\<close> is not called, so no line of the body
  is read or parsed.
\<close>

theorem non_200_status_short_circuits:
  assumes "post user_message = Inr response" and "status_code response \<noteq> 200"
  shows "get_ai_response sanitize post user_message =
           \<lparr>reply = ''Sorry, I'm having trouble connecting to the AI service.'',
            events = [ApiError (status_code response) (body_text response)]\<rparr> \<and>
         IterLines \<notin> set (events (get_ai_response sanitize post user_message))"
proof -
  from assms have "try_body sanitize post user_message =
      ([ApiError (status_code response) (body_text response)],
       Inr ''Sorry, I'm having trouble connecting to the AI service.'')"
    by (simp add: try_body_def)
  then show ?thesis by (simp add: get_ai_response_def)
qed

theorem non_200_status_short_circuits_witness:
  "get_ai_response (sanitize_stream json_loads)
     (always (Inr \<lparr>status_code = 404, body_text = ''Not Found'',
        iter_lines = ([''data: {\"choices\":[{\"delta\":{\"content\":\"Hel\"}}]}''], None)\<rparr>))
     ''hi'' =
     \<lparr>reply = ''Sorry, I'm having trouble connecting to the AI service.'',
      events = [ApiError 404 ''Not Found'']\<rparr>"
  using non_200_status_short_circuits
    [of "always (Inr \<lparr>status_code = 404, body_text = ''Not Found'',
        iter_lines = ([''data: {\"choices\":[{\"delta\":{\"content\":\"Hel\"}}]}''], None)\<rparr>)"
      "''hi''" _ "sanitize_stream json_loads"]
  by (simp add: always_def)

text \<open>
  C2 (as amended). When \<^verbatim>\<open>requests.post\<close> raises a request-level exception (a timeout,
  a refused connection), the reply is the fixed message
  "Sorry, I'm having trouble connecting to the AI service.". It is the same string as the
  reply to a status other than 200, and it differs from the message for any other
  exception.
\<close>

theorem request_exception_message:
  assumes "post user_message = Inl e" and "is_RequestException e"
  shows "reply (get_ai_response sanitize post user_message) =
           ''Sorry, I'm having trouble connecting to the AI service.'' \<and>
         reply (get_ai_response sanitize post user_message) \<noteq>
           ''Sorry, something went wrong while processing your request.'' \<and>
         (\<forall>post' message' response.
            post' message' = Inr response \<and> status_code response \<noteq> 200 \<longrightarrow>
            reply (get_ai_response sanitize post' message') =
            reply (get_ai_response sanitize post user_message))"
proof -
  from assms have "try_body sanitize post user_message = ([], Inl e)"
    by (simp add: try_body_def)
  with assms(2) have r: "reply (get_ai_response sanitize post user_message) =
      ''Sorry, I'm having trouble connecting to the AI service.''"
    by (simp add: get_ai_response_def)
  have "reply (get_ai_response sanitize post' message') =
      ''Sorry, I'm having trouble connecting to the AI service.''"
    if "post' message' = Inr response" and "status_code response \<noteq> 200"
    for post' message' response
    using that by (simp add: get_ai_response_def try_body_def)
  with r show ?thesis by simp
qed

theorem request_exception_message_witness:
  "reply (get_ai_response (sanitize_stream json_loads) (always (Inl Timeout)) ''hi'') =
     ''Sorry, I'm having trouble connecting to the AI service.''"
  using request_exception_message [of "always (Inl Timeout)" "''hi''" Timeout "sanitize_stream json_loads"]
  by (simp add: always_def)

text \<open>
  C2 as stated fails: the reply to a refused connection and the reply to a status 500
  are one and the same string.
\<close>

theorem same_message_counterexample:
  "reply (get_ai_response (sanitize_stream json_loads) (always (Inl ConnectionError)) ''hi'') =
   reply (get_ai_response (sanitize_stream json_loads)
     (always (Inr \<lparr>status_code = 500, body_text = ''Internal Server Error'',
        iter_lines = ([], None)\<rparr>)) ''hi'')"
  by (simp add: get_ai_response_def try_body_def always_def)

section \<open>Lines that contribute nothing\<close>

lemma map_filter_append:
  "List.map_filter f (xs @ ys) = List.map_filter f xs @ List.map_filter f ys"
  by (induction xs) (simp_all split: option.split)

lemma sanitize_stream_skips:
  assumes "sanitize_line loads intro_value skip_markers line = None"
  shows "sanitize_stream loads (before @ line # rest, failure) intro_value skip_markers f =
         sanitize_stream loads (before @ rest, failure) intro_value skip_markers f"
  using assms by (simp add: sanitize_stream_def map_filter_append)

lemma get_ai_response_same_stream:
  assumes "sanitize_stream loads data ''data:'' [''[DONE]'', ''''] extract_content =
           sanitize_stream loads data' ''data:'' [''[DONE]'', ''''] extract_content"
  shows "get_ai_response (sanitize_stream loads)
           (always (Inr \<lparr>status_code = status, body_text = body, iter_lines = data\<rparr>))
           user_message =
         get_ai_response (sanitize_stream loads)
           (always (Inr \<lparr>status_code = status, body_text = body, iter_lines = data'\<rparr>))
           user_message"
  using assms by (simp add: get_ai_response_def try_body_def always_def)

lemma hello:
  "get_ai_response (sanitize_stream json_loads) (ok_stream ([hel_line, lo_line], None)) ''hi'' =
     \<lparr>reply = ''Hello'', events = [IterLines]\<rparr>"
  by code_simp

text \<open>
  C6. A line whose payload (the line without the marker \<^verbatim>\<open>data:\<close>) the JSON reader
  rejects is skipped: with any lines before and after it, any status and any end of the
  stream, the outcome is the outcome on the same stream without that line.
\<close>

theorem unparseable_line_is_skipped:
  assumes "loads (strip_intro ''data:'' line) = None"
  shows "get_ai_response (sanitize_stream loads)
           (always (Inr \<lparr>status_code = status, body_text = body,
              iter_lines = (before @ line # rest, failure)\<rparr>)) user_message =
         get_ai_response (sanitize_stream loads)
           (always (Inr \<lparr>status_code = status, body_text = body,
              iter_lines = (before @ rest, failure)\<rparr>)) user_message"
proof -
  from assms have "sanitize_line loads ''data:'' [''[DONE]'', ''''] line = None"
    by (simp add: sanitize_line_def Let_def)
  then show ?thesis
    by (intro get_ai_response_same_stream sanitize_stream_skips)
qed

theorem unparseable_line_is_skipped_witness:
  "get_ai_response (sanitize_stream json_loads) (ok_stream ([hel_line, ''data: {oops'', lo_line], None)) ''hi'' =
     \<lparr>reply = ''Hello'', events = [IterLines]\<rparr>"
proof -
  have h: "json_loads (strip_intro ''data:'' ''data: {oops'') = None"
    by code_simp
  from unparseable_line_is_skipped
    [where loads = json_loads and line = "''data: {oops''" and status = 200 and body = "''''"
       and before = "[hel_line]" and rest = "[lo_line]" and failure = None
       and user_message = "''hi''", OF h] hello
  show ?thesis by (simp add: ok_stream_def)
qed

text \<open>
  C7. A line equal to the sentinel \<^verbatim>\<open>[DONE]\<close> or to the empty string contributes nothing,
  wherever it stands: the outcome is the outcome on the stream without that line.
\<close>

theorem sentinel_line_contributes_nothing:
  assumes "line = ''[DONE]'' \<or> line = ''''"
  shows "get_ai_response (sanitize_stream loads)
           (always (Inr \<lparr>status_code = status, body_text = body,
              iter_lines = (before @ line # rest, failure)\<rparr>)) user_message =
         get_ai_response (sanitize_stream loads)
           (always (Inr \<lparr>status_code = status, body_text = body,
              iter_lines = (before @ rest, failure)\<rparr>)) user_message"
proof -
  from assms have "strip_intro ''data:'' line = line"
    by (auto simp: strip_intro_def)
  with assms have "sanitize_line loads ''data:'' [''[DONE]'', ''''] line = None"
    by (auto simp: sanitize_line_def Let_def)
  then show ?thesis
    by (intro get_ai_response_same_stream sanitize_stream_skips)
qed

theorem sentinel_line_contributes_nothing_witness:
  "get_ai_response (sanitize_stream json_loads) (ok_stream ([hel_line, lo_line, ''[DONE]''], None)) ''hi'' =
     \<lparr>reply = ''Hello'', events = [IterLines]\<rparr> \<and>
   get_ai_response (sanitize_stream json_loads) (ok_stream ([hel_line, '''', lo_line], None)) ''hi'' =
     \<lparr>reply = ''Hello'', events = [IterLines]\<rparr>"
  using sentinel_line_contributes_nothing
    [where loads = json_loads and line = "''[DONE]''" and status = 200 and body = "''''"
       and before = "[hel_line, lo_line]" and rest = "[]" and failure = None
       and user_message = "''hi''"]
    sentinel_line_contributes_nothing
    [where loads = json_loads and line = "''''" and status = 200 and body = "''''"
       and before = "[hel_line]" and rest = "[lo_line]" and failure = None
       and user_message = "''hi''"]
    hello
  by (simp add: ok_stream_def)

section \<open>Concatenation of the deltas\<close>

lemma strip_nonempty: "strip s \<noteq> [] \<Longrightarrow> s \<noteq> []"
  by (cases s) (simp_all add: strip_def)

lemma accumulate_strings:
  "accumulate full (map JStr ds) = Inr (full @ concat ds)"
  by (induction ds arbitrary: full) simp_all

lemma extract_content_delta:
  assumes "map_of kvs ''choices'' = Some (JArr (JObj ckvs # others))"
    and "map_of ckvs ''delta'' = Some (JObj dkvs)"
  shows "extract_content (JObj kvs) =
           (case map_of dkvs ''content'' of None \<Rightarrow> JNull | Some v \<Rightarrow> v)"
  using assms by (simp add: extract_content_def delta_content_def then_do_def at_index_def)

lemma delta_lines_contents:
  assumes "list_all2 (\<lambda>line d. \<exists>payload kvs ckvs others dkvs.
              line = ''data:'' @ payload \<and> payload \<noteq> ''[DONE]'' \<and> payload \<noteq> '''' \<and>
              loads payload = Some (JObj kvs) \<and>
              map_of kvs ''choices'' = Some (JArr (JObj ckvs # others)) \<and>
              map_of ckvs ''delta'' = Some (JObj dkvs) \<and>
              map_of dkvs ''content'' = Some (JStr d)) lines ds"
  shows "map extract_content
           (List.map_filter (sanitize_line loads ''data:'' [''[DONE]'', '''']) lines) =
         map JStr ds"
  using assms
proof (induction rule: list_all2_induct)
  case Nil
  show ?case by simp
next
  case (Cons line lines d ds)
  from Cons.hyps(1) obtain payload kvs ckvs others dkvs where
    l: "line = ''data:'' @ payload" and p: "payload \<noteq> ''[DONE]''" "payload \<noteq> ''''" and
    j: "loads payload = Some (JObj kvs)" and
    c: "map_of kvs ''choices'' = Some (JArr (JObj ckvs # others))" and
    d: "map_of ckvs ''delta'' = Some (JObj dkvs)" and
    s: "map_of dkvs ''content'' = Some (JStr d)"
    by blast
  from l have "strip_intro ''data:'' line = payload"
    by (simp add: strip_intro_def)
  with p j have "sanitize_line loads ''data:'' [''[DONE]'', ''''] line = Some (JObj kvs)"
    by (simp add: sanitize_line_def)
  moreover from extract_content_delta [OF c d] s have "extract_content (JObj kvs) = JStr d"
    by simp
  ultimately show ?case using Cons.IH by simp
qed

lemma hello_done:
  "get_ai_response (sanitize_stream json_loads)
     (ok_stream ([hel_line, lo_line, ''data: [DONE]''], None)) ''hi'' =
     \<lparr>reply = ''Hello'', events = [IterLines]\<rparr>"
  by code_simp

text \<open>
  C1 (as amended). Let every line of the stream be the marker \<^verbatim>\<open>data:\<close> followed by a
  payload that is no sentinel and that the reader parses to an object whose
  \<^verbatim>\<open>choices[0].delta.content\<close> is a string, the delta of the line, and let the stream end
  normally. If the concatenation of the deltas, in stream order, is not empty after
  trimming, the reply is that trimmed concatenation; if the concatenation is empty, the
  reply is the placeholder. For the lines of the specification's example (the chunks
  \<^verbatim>\<open>Hel\<close> and \<^verbatim>\<open>lo\<close>, then \<^verbatim>\<open>data: [DONE]\<close>) the reply is \<^verbatim>\<open>Hello\<close>.
\<close>

theorem reducer_concatenates_deltas:
  assumes "list_all2 (\<lambda>line d. \<exists>payload kvs ckvs others dkvs.
              line = ''data:'' @ payload \<and> payload \<noteq> ''[DONE]'' \<and> payload \<noteq> '''' \<and>
              loads payload = Some (JObj kvs) \<and>
              map_of kvs ''choices'' = Some (JArr (JObj ckvs # others)) \<and>
              map_of ckvs ''delta'' = Some (JObj dkvs) \<and>
              map_of dkvs ''content'' = Some (JStr d)) lines ds"
  shows "(strip (concat ds) \<noteq> '''' \<longrightarrow>
            reply (get_ai_response (sanitize_stream loads) (ok_stream (lines, None)) user_message) =
              strip (concat ds)) \<and>
         (concat ds = '''' \<longrightarrow>
            reply (get_ai_response (sanitize_stream loads) (ok_stream (lines, None)) user_message) =
              ''I couldn't generate a response.'') \<and>
         reply (get_ai_response (sanitize_stream json_loads)
                  (ok_stream ([hel_line, lo_line, ''data: [DONE]''], None)) user_message) =
           ''Hello''"
proof -
  have "for_loop '''' (sanitize_stream loads (lines, None) ''data:'' [''[DONE]'', '''']
          extract_content) = Inr (concat ds)"
    by (simp add: for_loop_def sanitize_stream_def delta_lines_contents [OF assms]
        accumulate_strings then_do_def)
  then have r: "reply (get_ai_response (sanitize_stream loads) (ok_stream (lines, None)) user_message) =
      (if concat ds \<noteq> [] then strip (concat ds) else ''I couldn't generate a response.'')"
    by (simp add: get_ai_response_def try_body_def ok_stream_def always_def then_do_def)
  have n: "strip (concat ds) \<noteq> [] \<Longrightarrow> concat ds \<noteq> []"
    by (rule strip_nonempty)
  have "get_ai_response (sanitize_stream json_loads)
          (ok_stream ([hel_line, lo_line, ''data: [DONE]''], None)) user_message =
        get_ai_response (sanitize_stream json_loads)
          (ok_stream ([hel_line, lo_line, ''data: [DONE]''], None)) ''hi''"
    by (simp add: get_ai_response_def try_body_def ok_stream_def always_def)
  with hello_done have "reply (get_ai_response (sanitize_stream json_loads)
      (ok_stream ([hel_line, lo_line, ''data: [DONE]''], None)) user_message) = ''Hello''"
    by simp
  with r n show ?thesis by auto
qed

theorem reducer_concatenates_deltas_witness:
  "reply (get_ai_response (sanitize_stream json_loads) (ok_stream ([hel_line, lo_line], None)) ''hi'') = ''Hello''"
proof -
  have h: "json_loads '' {\"choices\":[{\"delta\":{\"content\":\"Hel\"}}]}'' =
      Some (JObj [(''choices'', JArr [JObj [(''delta'', JObj [(''content'', JStr ''Hel'')])]])])"
    by code_simp
  have l: "json_loads '' {\"choices\":[{\"delta\":{\"content\":\"lo\"}}]}'' =
      Some (JObj [(''choices'', JArr [JObj [(''delta'', JObj [(''content'', JStr ''lo'')])]])])"
    by code_simp
  have wf: "list_all2 (\<lambda>line d. \<exists>payload kvs ckvs others dkvs.
              line = ''data:'' @ payload \<and> payload \<noteq> ''[DONE]'' \<and> payload \<noteq> '''' \<and>
              json_loads payload = Some (JObj kvs) \<and>
              map_of kvs ''choices'' = Some (JArr (JObj ckvs # others)) \<and>
              map_of ckvs ''delta'' = Some (JObj dkvs) \<and>
              map_of dkvs ''content'' = Some (JStr d)) [hel_line, lo_line] [''Hel'', ''lo'']"
    using h l by (simp add: hel_line_def lo_line_def)
  have s: "strip (concat [''Hel'', ''lo'']) = ''Hello''"
    by code_simp
  from reducer_concatenates_deltas [OF wf, of "''hi''"] s show ?thesis
    by simp
qed

text \<open>
  C1 as stated fails for a stream whose only line is well-formed and carries the empty
  string as its delta: the trimmed concatenation is the empty string, the reply is the
  placeholder.
\<close>

theorem empty_delta_counterexample:
  "json_loads (drop 5 empty_delta_line) =
     Some (JObj [(''choices'', JArr [JObj [(''delta'', JObj [(''content'', JStr '''')])]])]) \<and>
   strip (concat ['''']) = '''' \<and>
   reply (get_ai_response (sanitize_stream json_loads) (ok_stream ([empty_delta_line], None)) ''hi'') =
     ''I couldn't generate a response.''"
  by code_simp

section \<open>The placeholder\<close>

text \<open>
  C4 at a stream whose only delta is a single space: the accumulated string is not
  empty, so it is trimmed and returned, and the reply is the empty string, not the
  placeholder.
\<close>

theorem whitespace_only_reply_is_empty:
  "get_ai_response (sanitize_stream json_loads) (ok_stream ([blank_delta_line], None)) ''hi'' =
     \<lparr>reply = '''', events = [IterLines]\<rparr>"
  by code_simp

text \<open>What holds of the placeholder: it is the reply when the loop appends nothing.\<close>

lemma accumulate_nothing:
  "\<forall>content \<in> set contents. \<not> truthy content \<Longrightarrow>
     accumulate full_response contents = Inr full_response"
  by (induction contents) simp_all

lemma placeholder_when_nothing_accumulated:
  assumes "\<forall>content \<in> set (fst (sanitize_stream loads data ''data:'' [''[DONE]'', '''']
             extract_content)). \<not> truthy content"
  shows "get_ai_response (sanitize_stream loads) (ok_stream data) user_message =
           \<lparr>reply = ''I couldn't generate a response.'', events = [IterLines]\<rparr>"
proof -
  have "for_loop '''' (sanitize_stream loads data ''data:'' [''[DONE]'', '''']
          extract_content) = Inr ''''"
    using accumulate_nothing [OF assms, of "''''"]
    by (simp add: for_loop_def then_do_def sanitize_stream_def)
  then show ?thesis
    by (simp add: get_ai_response_def try_body_def ok_stream_def always_def then_do_def)
qed

section \<open>A connection that drops mid-stream\<close>

text \<open>
  What bot.py does with an exception that leaves the generator: the loop is abandoned
  and the exception reaches the handlers of \<^verbatim>\<open>get_ai_response\<close>.
\<close>

lemma for_loop_raises:
  "accumulate full_response items = Inr full \<Longrightarrow>
     for_loop full_response (items, Some e) = Inl e"
  by (simp add: for_loop_def then_do_def)

lemma raised_iteration_reaches_handler:
  assumes "post user_message = Inr response" and "status_code response = 200"
    and "sanitize (iter_lines response) ''data:'' [''[DONE]'', ''''] extract_content =
           (items, Some e)"
    and "accumulate '''' items = Inr full" and "is_RequestException e"
  shows "get_ai_response sanitize post user_message =
           \<lparr>reply = ''Sorry, I'm having trouble connecting to the AI service.'',
            events = [IterLines, RequestError e]\<rparr>"
  using assms for_loop_raises [OF assms(4), of e]
  by (simp add: get_ai_response_def try_body_def then_do_def)

text \<open>
  C3. When iterating the response lines raises a transport error after some lines have
  been read, \<^verbatim>\<open>sanitize_stream\<close> ends the stream there: \<open>get_ai_response\<close> raises nothing
  and returns what the lines before the error accumulated, trimmed (the placeholder if
  they accumulated nothing), exactly as if the stream had ended normally after them.
\<close>

theorem connection_drop_keeps_accumulated:
  assumes "is_RequestException e"
    and "accumulate '''' (map extract_content
           (List.map_filter (sanitize_line loads ''data:'' [''[DONE]'', '''']) lines)) = Inr full"
  shows "get_ai_response (sanitize_stream loads) (ok_stream (lines, Some e)) user_message =
           \<lparr>reply = (if full \<noteq> '''' then strip full else ''I couldn't generate a response.''),
            events = [IterLines]\<rparr> \<and>
         get_ai_response (sanitize_stream loads) (ok_stream (lines, Some e)) user_message =
           get_ai_response (sanitize_stream loads) (ok_stream (lines, None)) user_message"
proof -
  have "for_loop '''' (sanitize_stream loads (lines, failure) ''data:'' [''[DONE]'', '''']
          extract_content) = Inr full" for failure
    using assms(2) by (simp add: for_loop_def sanitize_stream_def then_do_def)
  then show ?thesis
    by (simp add: get_ai_response_def try_body_def ok_stream_def always_def then_do_def)
qed

theorem connection_drop_keeps_accumulated_witness:
  "get_ai_response (sanitize_stream json_loads) (ok_stream ([hel_line, lo_line], Some ChunkedEncodingError)) ''hi'' =
     \<lparr>reply = ''Hello'', events = [IterLines]\<rparr>"
proof -
  have a: "accumulate '''' (map extract_content
      (List.map_filter (sanitize_line json_loads ''data:'' [''[DONE]'', ''''])
         [hel_line, lo_line])) = Inr ''Hello''"
    by code_simp
  have s: "strip ''Hello'' = ''Hello''"
    by code_simp
  from connection_drop_keeps_accumulated
    [where e = ChunkedEncodingError and loads = json_loads and lines = "[hel_line, lo_line]"
       and full = "''Hello''" and user_message = "''hi''", OF _ a] s
  show ?thesis by simp
qed

section \<open>extract_content\<close>

lemma extract_content_not_object:
  "(\<And>kvs. chunk \<noteq> JObj kvs) \<Longrightarrow> extract_content chunk = JNull"
  by (cases chunk) (auto simp add: extract_content_def delta_content_def then_do_def)

lemma extract_content_no_choices:
  "map_of kvs ''choices'' = None \<Longrightarrow> extract_content (JObj kvs) = JNull"
  by (simp add: extract_content_def delta_content_def then_do_def)

lemma extract_content_choices_not_list:
  assumes "map_of kvs ''choices'' = Some choices" and "\<And>xs. choices \<noteq> JArr xs"
  shows "extract_content (JObj kvs) = JNull"
proof (cases choices)
  case (JStr s)
  then show ?thesis using assms(1)
    by (cases "at_index s 0")
       (simp_all add: extract_content_def delta_content_def then_do_def)
next
  case (JArr xs)
  with assms(2) show ?thesis by blast
qed (use assms(1) in \<open>simp_all add: extract_content_def delta_content_def then_do_def\<close>)

lemma extract_content_empty_choices:
  "map_of kvs ''choices'' = Some (JArr []) \<Longrightarrow> extract_content (JObj kvs) = JNull"
  by (simp add: extract_content_def delta_content_def then_do_def at_index_def)

lemma extract_content_choice_not_object:
  assumes "map_of kvs ''choices'' = Some (JArr (choice # others))"
    and "\<And>ckvs. choice \<noteq> JObj ckvs"
  shows "extract_content (JObj kvs) = JNull"
  using assms
  by (cases choice)
     (auto simp add: extract_content_def delta_content_def then_do_def at_index_def)

lemma extract_content_no_delta:
  assumes "map_of kvs ''choices'' = Some (JArr (JObj ckvs # others))"
    and "map_of ckvs ''delta'' = None"
  shows "extract_content (JObj kvs) = JNull"
  using assms
  by (simp add: extract_content_def delta_content_def then_do_def at_index_def)

lemma extract_content_delta_not_object:
  assumes "map_of kvs ''choices'' = Some (JArr (JObj ckvs # others))"
    and "map_of ckvs ''delta'' = Some delta" and "\<And>dkvs. delta \<noteq> JObj dkvs"
  shows "extract_content (JObj kvs) = JNull"
  using assms
  by (cases delta)
     (auto simp add: extract_content_def delta_content_def then_do_def at_index_def)

text \<open>
  C10. \<^verbatim>\<open>extract_content\<close> returns a value for every parsed chunk: whatever exception the
  expression \<^verbatim>\<open>chunk["choices"][0]["delta"].get("content")\<close> raises, the result is
  \<^verbatim>\<open>None\<close>. In particular it is \<^verbatim>\<open>None\<close> for a chunk that is no object, for missing,
  non-list or empty \<^verbatim>\<open>choices\<close>, for a first choice that is no object, for a missing or
  non-object \<^verbatim>\<open>delta\<close>, and for a missing \<^verbatim>\<open>content\<close> key. A chunk whose content is the
  empty string leaves the accumulator as it is.
\<close>

theorem extract_content_total:
  "(\<forall>e. delta_content chunk = Inl e \<longrightarrow> extract_content chunk = JNull) \<and>
   ((\<forall>kvs. chunk \<noteq> JObj kvs) \<longrightarrow> extract_content chunk = JNull) \<and>
   (\<forall>kvs. chunk = JObj kvs \<and> map_of kvs ''choices'' = None \<longrightarrow>
      extract_content chunk = JNull) \<and>
   (\<forall>kvs choices. chunk = JObj kvs \<and> map_of kvs ''choices'' = Some choices \<and>
      (\<forall>xs. choices \<noteq> JArr xs) \<longrightarrow> extract_content chunk = JNull) \<and>
   (\<forall>kvs. chunk = JObj kvs \<and> map_of kvs ''choices'' = Some (JArr []) \<longrightarrow>
      extract_content chunk = JNull) \<and>
   (\<forall>kvs choice others. chunk = JObj kvs \<and>
      map_of kvs ''choices'' = Some (JArr (choice # others)) \<and>
      (\<forall>ckvs. choice \<noteq> JObj ckvs) \<longrightarrow> extract_content chunk = JNull) \<and>
   (\<forall>kvs ckvs others. chunk = JObj kvs \<and>
      map_of kvs ''choices'' = Some (JArr (JObj ckvs # others)) \<and>
      map_of ckvs ''delta'' = None \<longrightarrow> extract_content chunk = JNull) \<and>
   (\<forall>kvs ckvs others delta. chunk = JObj kvs \<and>
      map_of kvs ''choices'' = Some (JArr (JObj ckvs # others)) \<and>
      map_of ckvs ''delta'' = Some delta \<and> (\<forall>dkvs. delta \<noteq> JObj dkvs) \<longrightarrow>
      extract_content chunk = JNull) \<and>
   (\<forall>kvs ckvs others dkvs. chunk = JObj kvs \<and>
      map_of kvs ''choices'' = Some (JArr (JObj ckvs # others)) \<and>
      map_of ckvs ''delta'' = Some (JObj dkvs) \<and> map_of dkvs ''content'' = None \<longrightarrow>
      extract_content chunk = JNull) \<and>
   (extract_content chunk = JStr '''' \<longrightarrow>
      (\<forall>full_response rest.
         accumulate full_response (extract_content chunk # rest) =
         accumulate full_response rest))"
proof (intro conjI allI impI)
  fix e assume "delta_content chunk = Inl e"
  then show "extract_content chunk = JNull" by (simp add: extract_content_def)
next
  assume "\<forall>kvs. chunk \<noteq> JObj kvs"
  then show "extract_content chunk = JNull" by (simp add: extract_content_not_object)
next
  fix kvs assume "chunk = JObj kvs \<and> map_of kvs ''choices'' = None"
  then show "extract_content chunk = JNull" by (simp add: extract_content_no_choices)
next
  fix kvs choices
  assume "chunk = JObj kvs \<and> map_of kvs ''choices'' = Some choices \<and>
    (\<forall>xs. choices \<noteq> JArr xs)"
  then show "extract_content chunk = JNull"
    using extract_content_choices_not_list [of kvs choices] by simp
next
  fix kvs assume "chunk = JObj kvs \<and> map_of kvs ''choices'' = Some (JArr [])"
  then show "extract_content chunk = JNull" by (simp add: extract_content_empty_choices)
next
  fix kvs choice others
  assume "chunk = JObj kvs \<and> map_of kvs ''choices'' = Some (JArr (choice # others)) \<and>
    (\<forall>ckvs. choice \<noteq> JObj ckvs)"
  then show "extract_content chunk = JNull"
    using extract_content_choice_not_object [of kvs choice others] by simp
next
  fix kvs ckvs others
  assume "chunk = JObj kvs \<and> map_of kvs ''choices'' = Some (JArr (JObj ckvs # others)) \<and>
    map_of ckvs ''delta'' = None"
  then show "extract_content chunk = JNull"
    using extract_content_no_delta [of kvs ckvs others] by simp
next
  fix kvs ckvs others delta
  assume "chunk = JObj kvs \<and> map_of kvs ''choices'' = Some (JArr (JObj ckvs # others)) \<and>
    map_of ckvs ''delta'' = Some delta \<and> (\<forall>dkvs. delta \<noteq> JObj dkvs)"
  then show "extract_content chunk = JNull"
    using extract_content_delta_not_object [of kvs ckvs others delta] by simp
next
  fix kvs ckvs others dkvs
  assume "chunk = JObj kvs \<and> map_of kvs ''choices'' = Some (JArr (JObj ckvs # others)) \<and>
    map_of ckvs ''delta'' = Some (JObj dkvs) \<and> map_of dkvs ''content'' = None"
  then show "extract_content chunk = JNull"
    using extract_content_delta [of kvs ckvs others dkvs] by simp
next
  fix full_response rest
  assume "extract_content chunk = JStr ''''"
  then show "accumulate full_response (extract_content chunk # rest) =
    accumulate full_response rest" by simp
qed

theorem extract_content_total_witness:
  "extract_content (JObj [(''choices'', JArr [])]) = JNull \<and>
   extract_content (JObj [(''choices'', JStr ''abc'')]) = JNull \<and>
   extract_content (JArr [JNum ''1'']) = JNull \<and>
   extract_content (JObj [(''choices'', JArr [JObj [(''delta'', JNull)]])]) = JNull \<and>
   extract_content (JObj [(''choices'', JArr [JObj [(''delta'', JObj [])]])]) = JNull \<and>
   accumulate ''Hel''
     [extract_content
        (JObj [(''choices'', JArr [JObj [(''delta'', JObj [(''content'', JStr '''')])]])])] =
     Inr ''Hel''"
proof -
  let ?empty = "JObj [(''choices'', JArr [JObj [(''delta'', JObj [(''content'', JStr '''')])]])]"
  have e: "extract_content ?empty = JStr ''''"
    by code_simp
  have c: "map_of [(''choices'', JStr ''abc'')] ''choices'' = Some (JStr ''abc'')"
    by simp
  have n: "map_of [(''choices'', JArr [JObj [(''delta'', JNull)]])] ''choices'' =
      Some (JArr [JObj [(''delta'', JNull)]])"
    by simp
  have m: "map_of [(''choices'', JArr [JObj [(''delta'', JObj [])]])] ''choices'' =
      Some (JArr [JObj [(''delta'', JObj [])]])"
    by simp
  from extract_content_total [of "JObj [(''choices'', JArr [])]"]
    extract_content_total [of "JObj [(''choices'', JStr ''abc'')]"] c
    extract_content_total [of "JArr [JNum ''1'']"]
    extract_content_total [of "JObj [(''choices'', JArr [JObj [(''delta'', JNull)]])]"] n
    extract_content_total [of "JObj [(''choices'', JArr [JObj [(''delta'', JObj [])]])]"] m
    extract_content_total [of ?empty] e
  show ?thesis by simp
qed

section \<open>No exception leaves get_ai_response\<close>

text \<open>
  C9. For every user message and every behaviour of the upstream service,
  \<open>get_ai_response\<close> returns a reply: every exception that leaves the body of the \<^verbatim>\<open>try\<close>
  statement is turned into one of the two fixed error messages, and the reply is always
  one of the two error messages, the placeholder, or the trimmed text that the loop
  accumulated from a response with status 200.
\<close>

theorem get_ai_response_never_raises:
  "(\<forall>e. snd (try_body sanitize post user_message) = Inl e \<longrightarrow>
      reply (get_ai_response sanitize post user_message) =
        (if is_RequestException e
         then ''Sorry, I'm having trouble connecting to the AI service.''
         else ''Sorry, something went wrong while processing your request.'')) \<and>
   (reply (get_ai_response sanitize post user_message) =
      ''Sorry, I'm having trouble connecting to the AI service.'' \<or>
    reply (get_ai_response sanitize post user_message) =
      ''Sorry, something went wrong while processing your request.'' \<or>
    reply (get_ai_response sanitize post user_message) = ''I couldn't generate a response.'' \<or>
    (\<exists>response full_response.
       post user_message = Inr response \<and> status_code response = 200 \<and>
       for_loop ''''
         (sanitize (iter_lines response) ''data:'' [''[DONE]'', '''']
            extract_content) = Inr full_response \<and>
       full_response \<noteq> '''' \<and>
       reply (get_ai_response sanitize post user_message) = strip full_response))"
proof
  show "\<forall>e. snd (try_body sanitize post user_message) = Inl e \<longrightarrow>
      reply (get_ai_response sanitize post user_message) =
        (if is_RequestException e
         then ''Sorry, I'm having trouble connecting to the AI service.''
         else ''Sorry, something went wrong while processing your request.'')"
    by (cases "try_body sanitize post user_message") (simp add: get_ai_response_def)
next
  let ?loop = "\<lambda>response. for_loop ''''
         (sanitize (iter_lines response) ''data:'' [''[DONE]'', '''']
            extract_content)"
  show "reply (get_ai_response sanitize post user_message) =
      ''Sorry, I'm having trouble connecting to the AI service.'' \<or>
    reply (get_ai_response sanitize post user_message) =
      ''Sorry, something went wrong while processing your request.'' \<or>
    reply (get_ai_response sanitize post user_message) = ''I couldn't generate a response.'' \<or>
    (\<exists>response full_response.
       post user_message = Inr response \<and> status_code response = 200 \<and>
       ?loop response = Inr full_response \<and>
       full_response \<noteq> '''' \<and>
       reply (get_ai_response sanitize post user_message) = strip full_response)"
  proof (cases "post user_message")
    case (Inl e)
    then show ?thesis
      by (simp add: get_ai_response_def try_body_def)
  next
    case (Inr response)
    show ?thesis
    proof (cases "status_code response = 200")
      case False
      with Inr show ?thesis
        by (simp add: get_ai_response_def try_body_def)
    next
      case True
      show ?thesis
      proof (cases "?loop response")
        case (Inl e)
        with Inr True show ?thesis
          by (simp add: get_ai_response_def try_body_def then_do_def)
      next
        case loop: (Inr full_response)
        show ?thesis
        proof (cases "full_response = []")
          case True
          with Inr \<open>status_code response = 200\<close> loop show ?thesis
            by (simp add: get_ai_response_def try_body_def then_do_def)
        next
          case False
          with Inr \<open>status_code response = 200\<close> loop
          have "reply (get_ai_response sanitize post user_message) = strip full_response"
            by (simp add: get_ai_response_def try_body_def then_do_def)
          with Inr \<open>status_code response = 200\<close> loop False show ?thesis
            by blast
        qed
      qed
    qed
  qed
qed

theorem get_ai_response_never_raises_witness:
  "reply (get_ai_response (sanitize_stream json_loads) (ok_stream ([hel_line, number_delta_line], None)) ''hi'') =
     ''Sorry, something went wrong while processing your request.''"
proof -
  have "snd (try_body (sanitize_stream json_loads) (ok_stream ([hel_line, number_delta_line], None)) ''hi'') =
      Inl TypeError"
    by code_simp
  with get_ai_response_never_raises
    [of "sanitize_stream json_loads" "ok_stream ([hel_line, number_delta_line], None)" "''hi''"]
  show ?thesis by simp
qed

end
